theory Spec2Isabelle
  imports Complex_Main
begin

section \<open>Modelling conventions\<close>

text \<open>
  The simulation is written in Python. Its \<open>float\<close> values are modelled as \<^typ>\<open>real\<close>
  numbers with exact arithmetic, its \<open>int\<close> values as \<^typ>\<open>int\<close>, its strings as
  \<^typ>\<open>string\<close>. Exceptions are values of the type \<open>error\<close>; a function that can raise
  returns \<open>error + 'a\<close>, with \<open>Inl\<close> for the exception. Rounding is followed
  in two places (see the double precision section) and nowhere else; the overflow of
  \<open>math.exp\<close>, which the program catches, is modelled.

  The program draws random numbers from Python's global generator. Every draw is an explicit
  input of the model: the record \<open>Draws\<close> holds the raw variates one simulated day consumes,
  and a run takes a function from the day number to that day's draws. A property proved for
  all draws holds for every outcome of the generator.
\<close>

datatype error = OverflowError | ZeroDivisionError | IndexError

text \<open>Python's \<open>a / b\<close> on floats raises \<open>ZeroDivisionError\<close> when \<open>b\<close> is zero.\<close>

definition py_div :: "real \<Rightarrow> real \<Rightarrow> error + real" where
  "py_div a b = (if b = 0 then Inl ZeroDivisionError else Inr (a / b))"

text \<open>
  \<open>math.exp\<close> raises \<open>OverflowError\<close> when the result exceeds the largest finite
  double, \<open>DBL_MAX = (2 - 2^-52) * 2^1023\<close>.
\<close>

definition DBL_MAX :: real where
  "DBL_MAX = 2 ^ 1024 - 2 ^ 971"

definition math_exp :: "real \<Rightarrow> error + real" where
  "math_exp x = (if DBL_MAX < exp x then Inl OverflowError else Inr (exp x))"

subsection \<open>Double precision\<close>

text \<open>
  Two places of the program are followed in IEEE 754 double precision, because there the
  outcome turns on the rounding: the threshold comparisons of \<open>simulate_trades\<close> and the
  quotient and product of the challenge targets. Everything else is followed in exact
  arithmetic.

  \<open>double_round\<close> rounds a real to the nearest double, ties to even, with the exponent range
  unbounded above. A non-negative value is doubled until it reaches the interval from
  \<open>2^52\<close> to \<open>2^53\<close>, where the doubles are the integers, or halved until it does; at most
  1074 doublings are made, which is the spacing \<open>2^-1074\<close> of the subnormal numbers.
\<close>

definition round_half_even :: "real \<Rightarrow> int" where
  "round_half_even x =
     (let f = \<lfloor>x\<rfloor>; d = x - of_int f
      in if d < 1/2 then f else if 1/2 < d then f + 1 else if even f then f else f + 1)"

fun round_up :: "nat \<Rightarrow> real \<Rightarrow> real" where
  "round_up 0 x = of_int (round_half_even x)"
| "round_up (Suc n) x =
     (if x < 2 ^ 52 then round_up n (2 * x) / 2 else of_int (round_half_even x))"

fun round_down :: "nat \<Rightarrow> real \<Rightarrow> real" where
  "round_down 0 x = of_int (round_half_even x)"
| "round_down (Suc n) x =
     (if 2 ^ 53 \<le> x then 2 * round_down n (x / 2) else of_int (round_half_even x))"

definition double_round :: "real \<Rightarrow> real" where
  "double_round x =
     (let a = \<bar>x\<bar>;
          r = (if a < 2 ^ 53 then round_up 1074 a else round_down 971 a)
      in if x < 0 then - r else r)"

text \<open>
  The value of a floating-point operation: a number, an infinity or a NaN. A rounded result
  beyond \<open>DBL_MAX\<close> is an infinity. The operations take the operands the program gives
  them: finite numbers where the operand is a literal or comes from the market state, any
  value where it is the result of an earlier operation. A float literal of the source is
  \<open>double_round\<close> of its decimal.
\<close>

datatype double = Num real | PosInf | NegInf | NaN

definition to_double :: "real \<Rightarrow> double" where
  "to_double x =
     (let r = double_round x
      in if DBL_MAX < r then PosInf else if r < - DBL_MAX then NegInf else Num r)"

definition double_add :: "real \<Rightarrow> real \<Rightarrow> double" where
  "double_add a b = to_double (a + b)"

definition double_sub :: "real \<Rightarrow> real \<Rightarrow> double" where
  "double_sub a b = to_double (a - b)"

fun double_mul :: "real \<Rightarrow> double \<Rightarrow> double" where
  "double_mul a (Num b) = to_double (a * b)"
| "double_mul a PosInf = (if 0 < a then PosInf else if a < 0 then NegInf else NaN)"
| "double_mul a NegInf = (if 0 < a then NegInf else if a < 0 then PosInf else NaN)"
| "double_mul a NaN = NaN"

definition double_div :: "real \<Rightarrow> real \<Rightarrow> error + double" where
  "double_div a b = (if b = 0 then Inl ZeroDivisionError else Inr (to_double (a / b)))"

text \<open>\<open>a <= b\<close> and \<open>a >= b\<close> for a finite \<open>a\<close>; a comparison with a NaN is false.\<close>

fun double_le :: "real \<Rightarrow> double \<Rightarrow> bool" where
  "double_le a (Num b) = (a \<le> b)"
| "double_le a PosInf = True"
| "double_le a NegInf = False"
| "double_le a NaN = False"

fun double_ge :: "real \<Rightarrow> double \<Rightarrow> bool" where
  "double_ge a (Num b) = (a \<ge> b)"
| "double_ge a PosInf = False"
| "double_ge a NegInf = True"
| "double_ge a NaN = False"

text \<open>Python's \<open>max(a, b)\<close> returns \<open>b\<close> when \<open>b > a\<close> and \<open>a\<close> otherwise.\<close>

fun double_max :: "real \<Rightarrow> double \<Rightarrow> double" where
  "double_max a (Num b) = (if b > a then Num b else Num a)"
| "double_max a PosInf = PosInf"
| "double_max a NegInf = Num a"
| "double_max a NaN = Num a"


subsection \<open>The random source\<close>

record Draws =
  gauss_z :: real      \<comment> \<open>the standard normal variate behind \<open>random.gauss\<close>\<close>
  challenge_k :: nat   \<comment> \<open>the index behind \<open>random.choice(self.challenges)\<close>\<close>
  uniform_r1 :: real   \<comment> \<open>\<open>random()\<close> behind the first \<open>random.uniform\<close> of Economic News\<close>
  uniform_r2 :: real   \<comment> \<open>\<open>random()\<close> behind the second \<open>random.uniform\<close>\<close>
  random_u :: real     \<comment> \<open>the value of \<open>random.random()\<close> in \<open>simulate_trades\<close>\<close>
  choice_b :: bool     \<comment> \<open>the value of \<open>random.choice([True, False])\<close>\<close>

text \<open>\<open>random.gauss(mu, sigma)\<close> returns \<open>mu + z * sigma\<close> for a standard normal \<open>z\<close>.\<close>

definition random_gauss :: "real \<Rightarrow> real \<Rightarrow> real \<Rightarrow> real" where
  "random_gauss z mu sigma = mu + z * sigma"

text \<open>\<open>random.uniform(a, b)\<close> returns \<open>a + (b - a) * random()\<close>.\<close>

definition random_uniform :: "real \<Rightarrow> real \<Rightarrow> real \<Rightarrow> real" where
  "random_uniform r a b = a + (b - a) * r"

text \<open>
  \<open>random.choice(seq)\<close> raises \<open>IndexError\<close> on an empty sequence and returns
  \<open>seq[k]\<close> for an index \<open>k\<close> below the length otherwise; the drawn index is reduced
  modulo the length.
\<close>

definition random_choice :: "'a list \<Rightarrow> nat \<Rightarrow> error + 'a" where
  "random_choice xs k = (if xs = [] then Inl IndexError else Inr (xs ! (k mod length xs)))"

section \<open>market.py\<close>

record MarketState =
  price :: real
  volatility :: real

record Market =
  state :: MarketState
  day :: int

definition Market_init :: "real \<Rightarrow> real \<Rightarrow> Market" where
  "Market_init initial_price initial_volatility =
     \<lparr>state = \<lparr>price = initial_price, volatility = initial_volatility\<rparr>, day = 0\<rparr>"

definition get_state :: "Market \<Rightarrow> MarketState" where
  "get_state m = state m"

text \<open>
  The factor \<open>Market.update\<close> multiplies the price by, for a drawn \<open>daily_return\<close>: the
  clamped exponential in the \<open>try\<close> branch, \<open>2.0\<close> or \<open>0.5\<close> in the \<open>except\<close> branch.
\<close>

definition update_factor :: "real \<Rightarrow> real" where
  "update_factor daily_return =
     (case math_exp daily_return of
        Inr price_factor \<Rightarrow> max 0.5 (min 2.0 price_factor)
      | Inl _ \<Rightarrow> (if daily_return > 0 then 2.0 else 0.5))"

definition update :: "Market \<Rightarrow> Draws \<Rightarrow> Market" where
  "update m d =
     (let m1 = m\<lparr>day := day m + 1\<rparr>;
          daily_return = random_gauss (gauss_z d) 0 (volatility (state m1));
          p1 = (case math_exp daily_return of
                  Inr price_factor \<Rightarrow>
                    price (state m1) * max 0.5 (min 2.0 price_factor)
                | Inl _ \<Rightarrow>
                    (if daily_return > 0 then price (state m1) * 2.0
                     else price (state m1) * 0.5))
      in m1\<lparr>state := (state m1)\<lparr>price := max 0.01 p1\<rparr>\<rparr>)"

definition Market_apply_challenge :: "Market \<Rightarrow> real \<Rightarrow> real \<Rightarrow> Market" where
  "Market_apply_challenge m price_factor volatility_factor =
     (let p1 = price (state m) * price_factor;
          v1 = volatility (state m) * volatility_factor
      in m\<lparr>state := \<lparr>price = max 0.01 p1, volatility = max 0.001 v1\<rparr>\<rparr>)"

text \<open>
  The assignments of \<open>Market.apply_challenge\<close> in double precision: the new price and the
  new volatility, for factors that are the results of the caller's divisions.
\<close>

definition Market_apply_challenge_double :: "Market \<Rightarrow> double \<Rightarrow> double \<Rightarrow> double \<times> double" where
  "Market_apply_challenge_double m price_factor volatility_factor =
     (let p1 = double_mul (price (state m)) price_factor;
          v1 = double_mul (volatility (state m)) volatility_factor
      in (double_max (double_round 0.01) p1, double_max (double_round 0.001) v1))"

text \<open>The market-state invariant of the data model.\<close>

definition market_inv :: "Market \<Rightarrow> bool" where
  "market_inv m \<longleftrightarrow> 0.01 \<le> price (state m) \<and> 0.001 \<le> volatility (state m)"

section \<open>challenges.py\<close>

text \<open>
  A challenge's \<open>effect\<close> is a lambda of price and volatility; the Economic News lambda
  also calls \<open>random.uniform\<close>, so the effect takes the day's draws as well.
\<close>

record Challenge =
  name :: string
  description :: string
  effect :: "Draws \<Rightarrow> real \<Rightarrow> real \<Rightarrow> real \<times> real"

record ChallengeManager =
  challenges :: "Challenge list"

definition ChallengeManager_init :: ChallengeManager where
  "ChallengeManager_init = \<lparr>challenges = [
     \<lparr>name = ''Volatility Spike'',
      description = ''Market volatility suddenly increases.'',
      effect = (\<lambda>d p v. (p, v * 2))\<rparr>,
     \<lparr>name = ''Market Crash'',
      description = ''A sudden downturn causes prices to plummet.'',
      effect = (\<lambda>d p v. (p * 0.8, v * 1.5))\<rparr>,
     \<lparr>name = ''Bull Run'',
      description = ''A surge of optimism drives prices up.'',
      effect = (\<lambda>d p v. (p * 1.2, v * 1.2))\<rparr>,
     \<lparr>name = ''Calm Markets'',
      description = ''Volatility decreases as markets enter a calm period.'',
      effect = (\<lambda>d p v. (p, v * 0.5))\<rparr>,
     \<lparr>name = ''Economic News'',
      description = ''Breaking economic news causes price fluctuation.'',
      effect = (\<lambda>d p v. (p * random_uniform (uniform_r1 d) 0.9 1.1,
                           v * random_uniform (uniform_r2 d) 0.8 1.2))\<rparr>]\<rparr>"

definition get_random_challenge :: "ChallengeManager \<Rightarrow> Draws \<Rightarrow> error + Challenge" where
  "get_random_challenge cm d = random_choice (challenges cm) (challenge_k d)"

definition ChallengeManager_apply_challenge ::
  "ChallengeManager \<Rightarrow> Draws \<Rightarrow> real \<Rightarrow> real \<Rightarrow> error + (real \<times> real \<times> Challenge)" where
  "ChallengeManager_apply_challenge cm d p v =
     (case get_random_challenge cm d of
        Inl e \<Rightarrow> Inl e
      | Inr challenge \<Rightarrow>
          (case effect challenge d p v of
             (new_price, new_volatility) \<Rightarrow> Inr (new_price, new_volatility, challenge)))"

section \<open>market\_maker.py\<close>

record SimpleMarketMaker =
  spread_multiplier :: real

definition SimpleMarketMaker_init :: "real \<Rightarrow> SimpleMarketMaker" where
  "SimpleMarketMaker_init m = \<lparr>spread_multiplier = m\<rparr>"

text \<open>The constructor's default argument, \<open>spread_multiplier = 0.1\<close>.\<close>

definition SimpleMarketMaker_default :: SimpleMarketMaker where
  "SimpleMarketMaker_default = SimpleMarketMaker_init 0.1"

definition make_market :: "SimpleMarketMaker \<Rightarrow> real \<Rightarrow> real \<Rightarrow> real \<times> real" where
  "make_market mm p v =
     (let spread = p * v * spread_multiplier mm;
          bid = max 0.01 (p - spread);
          ask = p + spread
      in (bid, ask))"

text \<open>
  \<open>get_market_maker_class\<close> looks the name up in \<open>globals()\<close>, the namespace of the
  module \<open>market_maker\<close>. That namespace binds the names the module's statements define
  (the two imports, the two classes and the function) and the attributes the interpreter
  gives every imported module.
\<close>

datatype PyObject =
    Class_ABC
  | Function_abstractmethod
  | Class_MarketMaker
  | Class_SimpleMarketMaker
  | Function_get_market_maker_class
  | ModuleAttribute string

definition globals :: "(string \<times> PyObject) list" where
  "globals = [
     (''__name__'', ModuleAttribute ''__name__''),
     (''__doc__'', ModuleAttribute ''__doc__''),
     (''__package__'', ModuleAttribute ''__package__''),
     (''__loader__'', ModuleAttribute ''__loader__''),
     (''__spec__'', ModuleAttribute ''__spec__''),
     (''__file__'', ModuleAttribute ''__file__''),
     (''__cached__'', ModuleAttribute ''__cached__''),
     (''__builtins__'', ModuleAttribute ''__builtins__''),
     (''ABC'', Class_ABC),
     (''abstractmethod'', Function_abstractmethod),
     (''MarketMaker'', Class_MarketMaker),
     (''SimpleMarketMaker'', Class_SimpleMarketMaker),
     (''get_market_maker_class'', Function_get_market_maker_class)]"

text \<open>The result is the returned object and the lines printed.\<close>

definition get_market_maker_class :: "string \<Rightarrow> PyObject \<times> string list" where
  "get_market_maker_class class_name =
     (case map_of globals class_name of
        Some obj \<Rightarrow> (obj, [])
      | None \<Rightarrow>
          (Class_SimpleMarketMaker,
           [''Error: MarketMaker class '' @ [CHR 0x27] @ class_name @ [CHR 0x27] @ '' not found.'',
            ''Using SimpleMarketMaker as fallback.'']))"

text \<open>
  The classes of the module that implement \<open>make_market\<close>: the concrete subclasses of
  \<open>MarketMaker\<close>. \<open>SimpleMarketMaker\<close> is the only one.
\<close>

definition is_strategy_variant :: "PyObject \<Rightarrow> bool" where
  "is_strategy_variant obj \<longleftrightarrow> obj = Class_SimpleMarketMaker"

section \<open>game.py\<close>

datatype TradeResult = TradeResult (trade_type: string) (trade_price: real) (quantity: int)

text \<open>A daily result is the tuple \<open>(day, bid, ask, pnl, challenge)\<close>.\<close>

type_synonym DayRecord = "int \<times> real \<times> real \<times> real \<times> string"

definition day_of :: "DayRecord \<Rightarrow> int" where
  "day_of r = (case r of (d, _, _, _, _) \<Rightarrow> d)"

definition pnl_of :: "DayRecord \<Rightarrow> real" where
  "pnl_of r = (case r of (_, _, _, pnl, _) \<Rightarrow> pnl)"

text \<open>
  The market maker of a game is any implementation of the abstract \<open>make_market\<close>: a
  function from price and volatility to a bid and an ask.
\<close>

record Game =
  market :: Market
  challenge_manager :: ChallengeManager
  market_maker :: "real \<Rightarrow> real \<Rightarrow> real \<times> real"
  days :: int
  total_pnl :: real
  daily_results :: "DayRecord list"

definition Game_init ::
  "Market \<Rightarrow> ChallengeManager \<Rightarrow> (real \<Rightarrow> real \<Rightarrow> real \<times> real) \<Rightarrow> int \<Rightarrow> Game" where
  "Game_init m cm mm n =
     \<lparr>market = m, challenge_manager = cm, market_maker = mm, days = n,
      total_pnl = 0, daily_results = []\<rparr>"

text \<open>
  The thresholds \<open>bid * (1 + buffer)\<close> and \<open>ask * (1 - buffer)\<close> and the literals
  \<open>0.001\<close> and \<open>0.1\<close> are doubles.
\<close>

definition simulate_trades :: "Game \<Rightarrow> real \<Rightarrow> real \<Rightarrow> Draws \<Rightarrow> TradeResult list" where
  "simulate_trades g bid ask d =
     (let trades0 = [];
          market_price = price (get_state (market g));
          buffer = double_round 0.001;
          trades1 =
            (if double_le market_price (double_mul bid (double_add 1 buffer))
             then trades0 @ [TradeResult ''buy'' bid 1]
             else if double_ge market_price (double_mul ask (double_sub 1 buffer))
             then trades0 @ [TradeResult ''sell'' ask 1]
             else trades0)
      in if random_u d < double_round 0.1 then
           (if choice_b d then trades1 @ [TradeResult ''buy'' bid 1]
            else trades1 @ [TradeResult ''sell'' ask 1])
         else trades1)"

definition calculate_daily_pnl :: "Game \<Rightarrow> TradeResult list \<Rightarrow> real" where
  "calculate_daily_pnl g trades =
     (let market_price = price (get_state (market g))
      in fold (\<lambda>trade daily_pnl.
                 if trade_type trade = ''buy'' then daily_pnl + (market_price - trade_price trade)
                 else daily_pnl + (trade_price trade - market_price))
           trades 0)"

definition log_daily_results :: "Game \<Rightarrow> int \<Rightarrow> real \<Rightarrow> real \<Rightarrow> real \<Rightarrow> string \<Rightarrow> Game" where
  "log_daily_results g dy bid ask pnl challenge =
     g\<lparr>daily_results := daily_results g @ [(dy, bid, ask, pnl, challenge)]\<rparr>"

text \<open>
  Line 52 of game.py: the challenge's target values are divided by the market's current
  values and the quotients are handed to \<open>Market.apply_challenge\<close>. This is the step of
  the loop, in exact arithmetic.
\<close>

definition apply_targets :: "Market \<Rightarrow> real \<Rightarrow> real \<Rightarrow> error + Market" where
  "apply_targets m new_price new_volatility =
     (case py_div new_price (price (get_state m)) of
        Inl e \<Rightarrow> Inl e
      | Inr price_factor \<Rightarrow>
          (case py_div new_volatility (volatility (get_state m)) of
             Inl e \<Rightarrow> Inl e
           | Inr volatility_factor \<Rightarrow>
               Inr (Market_apply_challenge m price_factor volatility_factor)))"

text \<open>The same line in double precision, with the price and volatility it leaves.\<close>

definition apply_targets_double :: "Market \<Rightarrow> real \<Rightarrow> real \<Rightarrow> error + (double \<times> double)" where
  "apply_targets_double m new_price new_volatility =
     (case double_div new_price (price (get_state m)) of
        Inl e \<Rightarrow> Inl e
      | Inr price_factor \<Rightarrow>
          (case double_div new_volatility (volatility (get_state m)) of
             Inl e \<Rightarrow> Inl e
           | Inr volatility_factor \<Rightarrow>
               Inr (Market_apply_challenge_double m price_factor volatility_factor)))"

definition simulate_day :: "Game \<Rightarrow> int \<Rightarrow> Draws \<Rightarrow> error + (real \<times> Game)" where
  "simulate_day g dy d =
     (let g1 = g\<lparr>market := update (market g) d\<rparr>
      in case ChallengeManager_apply_challenge (challenge_manager g1) d
                (price (get_state (market g1))) (volatility (get_state (market g1))) of
           Inl e \<Rightarrow> Inl e
         | Inr (new_price, new_volatility, challenge) \<Rightarrow>
             (case apply_targets (market g1) new_price new_volatility of
                Inl e \<Rightarrow> Inl e
              | Inr m2 \<Rightarrow>
                  (let g2 = g1\<lparr>market := m2\<rparr>
                   in case market_maker g2 (price (get_state (market g2)))
                             (volatility (get_state (market g2))) of
                        (bid, ask) \<Rightarrow>
                          (let trades = simulate_trades g2 bid ask d;
                               daily_pnl = calculate_daily_pnl g2 trades;
                               g3 = log_daily_results g2 dy bid ask daily_pnl (name challenge)
                           in Inr (daily_pnl, g3)))))"

text \<open>The body of the loop of \<open>get_max_consecutive_positive_days\<close>.\<close>

definition streak_step :: "DayRecord \<Rightarrow> int \<times> int \<Rightarrow> int \<times> int" where
  "streak_step r s =
     (case s of (max_streak, current_streak) \<Rightarrow>
        (if pnl_of r > 0 then (max max_streak (current_streak + 1), current_streak + 1)
         else (max_streak, 0)))"

definition get_max_consecutive_positive_days :: "Game \<Rightarrow> int" where
  "get_max_consecutive_positive_days g = fst (fold streak_step (daily_results g) (0, 0))"

definition calculate_score :: "Game \<Rightarrow> real" where
  "calculate_score g =
     (let score0 = total_pnl g;
          negative_pnl_days = (\<Sum>r \<leftarrow> filter (\<lambda>r. pnl_of r < 0) (daily_results g). (1::int));
          score1 = score0 - real_of_int (negative_pnl_days * 10);
          consecutive_positive_days = get_max_consecutive_positive_days g;
          score2 = score1 + real_of_int (consecutive_positive_days * 5)
      in max 0 score2)"

text \<open>The loop of \<open>run\<close> over the days of \<open>range(1, self.days + 1)\<close>.\<close>

fun run_days :: "Game \<Rightarrow> (int \<Rightarrow> Draws) \<Rightarrow> int list \<Rightarrow> error + Game" where
  "run_days g rnd [] = Inr g"
| "run_days g rnd (dy # rest) =
     (case simulate_day g dy (rnd dy) of
        Inl e \<Rightarrow> Inl e
      | Inr (daily_pnl, g1) \<Rightarrow>
          run_days (g1\<lparr>total_pnl := total_pnl g1 + daily_pnl\<rparr>) rnd rest)"

text \<open>\<open>run\<close> returns the score; the model returns the final state of the game with it.\<close>

definition run :: "Game \<Rightarrow> (int \<Rightarrow> Draws) \<Rightarrow> error + (real \<times> Game)" where
  "run g rnd =
     (case run_days g rnd [1..days g] of
        Inl e \<Rightarrow> Inl e
      | Inr g1 \<Rightarrow> Inr (calculate_score g1, g1))"

section \<open>Notions of the specification\<close>

text \<open>
  The longest run of consecutive days with a positive P\&L, in the specification's words:
  \<open>n\<close> is the length of some block of consecutive entries that are all positive, and no
  such block is longer.
\<close>

definition is_longest_positive_run :: "real list \<Rightarrow> int \<Rightarrow> bool" where
  "is_longest_positive_run pnls n \<longleftrightarrow>
     (\<exists>before block after. pnls = before @ block @ after \<and> (\<forall>p \<in> set block. 0 < p)
        \<and> int (length block) = n) \<and>
     (\<forall>before block after. pnls = before @ block @ after \<and> (\<forall>p \<in> set block. 0 < p)
        \<longrightarrow> int (length block) \<le> n)"

section \<open>Example inputs\<close>

text \<open>
  The configured game of main.py, shortened to one day, and a day's draws: a zero return,
  the challenge at index 3 (Calm Markets) and a random trade on the buy side.
\<close>

definition example_draws :: Draws where
  "example_draws = \<lparr>gauss_z = 0, challenge_k = 3, uniform_r1 = 1/2, uniform_r2 = 1/2,
     random_u = 0.05, choice_b = True\<rparr>"

definition example_game :: Game where
  "example_game = Game_init (Market_init 100 0.02) ChallengeManager_init
     (make_market SimpleMarketMaker_default) 1"

text \<open>
  A finished game with a total P\&L of 100, three losing days and a longest winning streak
  of four days.
\<close>

definition example_results :: "DayRecord list" where
  "example_results =
     [(1, 99, 101, 40, ''Bull Run''), (2, 99, 101, 30, ''Calm Markets''),
      (3, 99, 101, 20, ''Bull Run''), (4, 99, 101, 13, ''Market Crash''),
      (5, 99, 101, -1, ''Market Crash''), (6, 99, 101, -1, ''Economic News''),
      (7, 99, 101, -1, ''Volatility Spike'')]"

definition example_finished :: Game where
  "example_finished =
     (Game_init (Market_init 100 0.02) ChallengeManager_init
        (make_market SimpleMarketMaker_default) 7)
       \<lparr>total_pnl := 100, daily_results := example_results\<rparr>"

section \<open>Rounding to double precision\<close>

lemma round_half_even_error: "\<bar>of_int (round_half_even x) - x\<bar> \<le> 1 / 2"
  unfolding round_half_even_def Let_def by (auto; linarith)

lemma round_up_error:
  "0 \<le> x \<Longrightarrow> 2 ^ 52 \<le> x * 2 ^ n \<Longrightarrow> \<bar>round_up n x - x\<bar> \<le> x / 2 ^ 53"
proof (induction n arbitrary: x)
  case 0
  then have "1 / 2 \<le> x / 2 ^ 53" by simp
  with round_half_even_error [of x] show ?case by simp
next
  case (Suc n)
  show ?case
  proof (cases "x < 2 ^ 52")
    case True
    have i: "\<bar>round_up n (2 * x) - 2 * x\<bar> \<le> 2 * x / 2 ^ 53"
      using Suc.IH [of "2 * x"] Suc.prems by (simp add: mult.assoc mult.left_commute)
    have "\<bar>round_up n (2 * x) / 2 - x\<bar> = \<bar>round_up n (2 * x) - 2 * x\<bar> / 2"
      by (simp add: abs_if field_simps)
    with i have "\<bar>round_up n (2 * x) / 2 - x\<bar> \<le> x / 2 ^ 53" by simp
    then show ?thesis using True by simp
  next
    case False
    then have "1 / 2 \<le> x / 2 ^ 53" by simp
    with round_half_even_error [of x] False show ?thesis by simp
  qed
qed

lemma round_down_error:
  "2 ^ 52 \<le> x \<Longrightarrow> \<bar>round_down n x - x\<bar> \<le> x / 2 ^ 53"
proof (induction n arbitrary: x)
  case 0
  then have "1 / 2 \<le> x / 2 ^ 53" by simp
  with round_half_even_error [of x] show ?case by simp
next
  case (Suc n)
  show ?case
  proof (cases "2 ^ 53 \<le> x")
    case True
    then have i: "\<bar>round_down n (x / 2) - x / 2\<bar> \<le> x / 2 / 2 ^ 53"
      using Suc.IH [of "x / 2"] by simp
    have "\<bar>2 * round_down n (x / 2) - x\<bar> = 2 * \<bar>round_down n (x / 2) - x / 2\<bar>"
      by (simp add: abs_if field_simps)
    with i have "\<bar>2 * round_down n (x / 2) - x\<bar> \<le> x / 2 ^ 53" by simp
    then show ?thesis using True by simp
  next
    case False
    from Suc.prems have "1 / 2 \<le> x / 2 ^ 53" by simp
    with round_half_even_error [of x] False show ?thesis by simp
  qed
qed

text \<open>In the range of the normal doubles the relative rounding error is at most \<open>2^-53\<close>.\<close>

lemma double_round_error:
  assumes "1 / 2 ^ 1022 \<le> \<bar>x\<bar>"
  shows "\<bar>double_round x - x\<bar> \<le> \<bar>x\<bar> / 2 ^ 53"
proof -
  let ?a = "\<bar>x\<bar>"
  let ?r = "if ?a < 2 ^ 53 then round_up 1074 ?a else round_down 971 ?a"
  have e: "\<bar>?r - ?a\<bar> \<le> ?a / 2 ^ 53"
  proof (cases "?a < 2 ^ 53")
    case True
    have "(2::real) ^ 52 = (1 / 2 ^ 1022) * 2 ^ 1074"
      by (simp add: power_add [symmetric] field_simps flip: power_add)
    also have "\<dots> \<le> ?a * 2 ^ 1074"
      using assms by (intro mult_right_mono) simp_all
    finally have "2 ^ 52 \<le> ?a * 2 ^ 1074" .
    from round_up_error [OF _ this] True show ?thesis by simp
  next
    case False
    then have "2 ^ 52 \<le> ?a" by simp
    from round_down_error [OF this] False show ?thesis by simp
  qed
  show ?thesis
  proof (cases "x < 0")
    case True
    then have "double_round x - x = - (?r - ?a)"
      by (simp add: double_round_def Let_def)
    with e show ?thesis by (metis abs_minus)
  next
    case False
    then have "double_round x - x = ?r - ?a"
      by (simp add: double_round_def Let_def)
    with e show ?thesis by simp
  qed
qed

text \<open>A value in the normal range and away from the overflow threshold rounds to a number.\<close>

lemma to_double_finite:
  assumes "1 / 2 ^ 1022 \<le> \<bar>x\<bar>" and "\<bar>x\<bar> \<le> 3 * 2 ^ 1022"
  shows "to_double x = Num (double_round x)"
proof -
  from double_round_error [OF assms(1)]
  have "\<bar>double_round x\<bar> \<le> \<bar>x\<bar> + \<bar>x\<bar> / 2 ^ 53" by linarith
  also have "\<dots> \<le> 3 * 2 ^ 1022 + 3 * 2 ^ 1022 / 2 ^ 53"
    using assms(2) by (intro add_mono divide_right_mono) simp_all
  also have "\<dots> \<le> DBL_MAX" by (simp add: DBL_MAX_def)
  finally have "\<bar>double_round x\<bar> \<le> DBL_MAX" .
  then show ?thesis by (auto simp: to_double_def Let_def)
qed




text \<open>Unfolding the recursion of the rounding at a numeral.\<close>

lemma round_up_numeral:
  "round_up (numeral k) x =
     (if x < 2 ^ 52 then round_up (pred_numeral k) (2 * x) / 2 else of_int (round_half_even x))"
  by (simp add: numeral_eq_Suc)

lemma round_down_numeral:
  "round_down (numeral k) x =
     (if 2 ^ 53 \<le> x then 2 * round_down (pred_numeral k) (x / 2) else of_int (round_half_even x))"
  by (simp add: numeral_eq_Suc)

lemmas double_eval = double_round_def round_half_even_def round_up_numeral round_down_numeral
  to_double_def double_add_def double_sub_def double_div_def DBL_MAX_def Let_def

text \<open>The literals \<open>0.001\<close>, \<open>0.1\<close> and \<open>0.01\<close> and the two factors of the thresholds.\<close>

lemma literal_values:
  "double_round 0.001 = 1152921504606847 / 2 ^ 60"
  "double_round 0.1 = 3602879701896397 / 2 ^ 55"
  "double_round 0.01 = 5764607523034235 / 2 ^ 59"
  by (simp_all add: double_eval)

lemma buffer_factors:
  "double_add 1 (double_round 0.001) = Num (2254051613498933 / 2 ^ 51)"
  "double_sub 1 (double_round 0.001) = Num (8998192055486251 / 2 ^ 53)"
  by (simp_all add: double_eval)

section \<open>The longest winning streak\<close>

lemma fold_streak_upper:
  "0 \<le> c \<Longrightarrow> c \<le> m \<Longrightarrow> fold streak_step rs (m, c) = (m', c') \<Longrightarrow>
   map pnl_of rs = before @ block @ after \<Longrightarrow> \<forall>p \<in> set block. 0 < p \<Longrightarrow>
   m \<le> m' \<and> int (length block) \<le> m' \<and> (before = [] \<longrightarrow> c + int (length block) \<le> m')"
proof (induction rs arbitrary: m c before block after)
  case Nil
  then show ?case by simp
next
  case (Cons r rs)
  obtain m1 c1 where s1: "streak_step r (m, c) = (m1, c1)"
    by (cases "streak_step r (m, c)")
  have inv1: "0 \<le> c1" "c1 \<le> m1" "m \<le> m1"
    using s1 Cons.prems(1,2) by (auto simp: streak_step_def split: if_splits)
  have f1: "fold streak_step rs (m1, c1) = (m', c')"
    using Cons.prems(3) s1 by simp
  show ?case
  proof (cases before)
    case (Cons a before')
    then have "map pnl_of rs = before' @ block @ after"
      using Cons.prems(4) by simp
    from Cons.IH [OF inv1(1,2) f1 this Cons.prems(5)] inv1(3) Cons
    show ?thesis by simp
  next
    case Nil
    note bn = Nil
    show ?thesis
    proof (cases block)
      case Nil
      have "map pnl_of rs = [] @ [] @ map pnl_of rs" by simp
      from Cons.IH [OF inv1(1,2) f1 this] inv1(3) Cons.prems(1,2) Nil
      show ?thesis by simp
    next
      case (Cons y block')
      then have y: "pnl_of r = y" "0 < y" and rest: "map pnl_of rs = [] @ block' @ after"
        and pos: "\<forall>p \<in> set block'. 0 < p"
        using Cons.prems(4,5) bn by auto
      have c1: "c1 = c + 1"
        using s1 y by (simp add: streak_step_def)
      from Cons.IH [OF inv1(1,2) f1 rest pos] inv1(3) c1 Cons Cons.prems(1)
      show ?thesis by simp
    qed
  qed
qed

lemma fold_streak_attained:
  "fold streak_step rs (m, c) = (m', c') \<Longrightarrow>
   m' = m \<or> (\<exists>before block after. map pnl_of rs = before @ block @ after \<and>
      (\<forall>p \<in> set block. 0 < p) \<and>
      (int (length block) = m' \<or> (before = [] \<and> c + int (length block) = m')))"
proof (induction rs arbitrary: m c)
  case Nil
  then show ?case by simp
next
  case (Cons r rs)
  obtain m1 c1 where s1: "streak_step r (m, c) = (m1, c1)"
    by (cases "streak_step r (m, c)")
  have f1: "fold streak_step rs (m1, c1) = (m', c')"
    using Cons.prems s1 by simp
  from Cons.IH [OF f1] consider
      (same) "m' = m1"
    | (inner) before block after where "map pnl_of rs = before @ block @ after"
        "\<forall>p \<in> set block. 0 < p" "int (length block) = m'"
    | (pre) block after where "map pnl_of rs = block @ after"
        "\<forall>p \<in> set block. 0 < p" "c1 + int (length block) = m'"
    by auto
  then show ?case
  proof cases
    case same
    show ?thesis
    proof (cases "0 < pnl_of r \<and> m < c + 1")
      case True
      then have "m' = c + 1" using same s1 by (simp add: streak_step_def)
      moreover have "map pnl_of (r # rs) = [] @ [pnl_of r] @ map pnl_of rs" by simp
      ultimately show ?thesis using True
        by (intro disjI2 exI [of _ "[]"] exI [of _ "[pnl_of r]"] exI [of _ "map pnl_of rs"]) simp
    next
      case False
      then have "m' = m" using same s1 by (auto simp: streak_step_def split: if_splits)
      then show ?thesis by simp
    qed
  next
    case inner
    then have "map pnl_of (r # rs) = (pnl_of r # before) @ block @ after" by simp
    with inner(2,3) show ?thesis by blast
  next
    case pre
    show ?thesis
    proof (cases "0 < pnl_of r")
      case True
      then have "c1 = c + 1" using s1 by (simp add: streak_step_def)
      then have "c + int (length (pnl_of r # block)) = m'" using pre(3) by simp
      moreover have "map pnl_of (r # rs) = [] @ (pnl_of r # block) @ after"
        using pre(1) by simp
      moreover have "\<forall>p \<in> set (pnl_of r # block). 0 < p" using True pre(2) by simp
      ultimately show ?thesis by blast
    next
      case False
      then have "c1 = 0" using s1 by (simp add: streak_step_def)
      then have "int (length block) = m'" using pre(3) by simp
      moreover have "map pnl_of (r # rs) = [pnl_of r] @ block @ after"
        using pre(1) by simp
      ultimately show ?thesis using pre(2) by blast
    qed
  qed
qed

lemma streak_is_longest:
  "is_longest_positive_run (map pnl_of (daily_results g)) (get_max_consecutive_positive_days g)"
proof -
  obtain m' c' where f: "fold streak_step (daily_results g) (0, 0) = (m', c')"
    by (cases "fold streak_step (daily_results g) (0, 0)")
  have m: "get_max_consecutive_positive_days g = m'"
    using f by (simp add: get_max_consecutive_positive_days_def)
  have upper: "\<forall>before block after. map pnl_of (daily_results g) = before @ block @ after \<and>
      (\<forall>p \<in> set block. 0 < p) \<longrightarrow> int (length block) \<le> m'"
    using fold_streak_upper [OF _ _ f] by blast
  have "\<exists>before block after. map pnl_of (daily_results g) = before @ block @ after \<and>
      (\<forall>p \<in> set block. 0 < p) \<and> int (length block) = m'"
  proof -
    from fold_streak_attained [OF f] consider "m' = 0"
      | before block after where "map pnl_of (daily_results g) = before @ block @ after"
          "\<forall>p \<in> set block. 0 < p" "int (length block) = m'"
      by auto
    then show ?thesis
    proof cases
      case 1
      have "map pnl_of (daily_results g) = [] @ [] @ map pnl_of (daily_results g)" by simp
      then show ?thesis using 1 by (intro exI [of _ "[]"] exI [of _ "map pnl_of (daily_results g)"]) simp
    next
      case 2
      then show ?thesis by blast
    qed
  qed
  with upper m show ?thesis
    unfolding is_longest_positive_run_def by simp
qed


lemma longest_positive_run_unique:
  "is_longest_positive_run pnls n \<Longrightarrow> is_longest_positive_run pnls n' \<Longrightarrow> n = n'"
proof -
  assume a: "is_longest_positive_run pnls n" and b: "is_longest_positive_run pnls n'"
  from a obtain b1 k1 a1 where 1: "pnls = b1 @ k1 @ a1" "\<forall>p \<in> set k1. 0 < p" "int (length k1) = n"
    unfolding is_longest_positive_run_def by blast
  from b obtain b2 k2 a2 where 2: "pnls = b2 @ k2 @ a2" "\<forall>p \<in> set k2. 0 < p" "int (length k2) = n'"
    unfolding is_longest_positive_run_def by blast
  from a 2 have "n' \<le> n"
    unfolding is_longest_positive_run_def by blast
  moreover from b 1 have "n \<le> n'"
    unfolding is_longest_positive_run_def by blast
  ultimately show ?thesis by simp
qed

section \<open>Scoring and the run\<close>

lemma negative_days_count:
  "(\<Sum>r \<leftarrow> filter (\<lambda>r. pnl_of r < 0) rs. (1::int)) = int (length (filter (\<lambda>r. pnl_of r < 0) rs))"
  by (simp add: sum_list_triv)

lemma calculate_score_eq:
  "calculate_score g =
     max 0 (total_pnl g
            - 10 * real (length (filter (\<lambda>r. pnl_of r < 0) (daily_results g)))
            + 5 * real_of_int (get_max_consecutive_positive_days g))"
  by (simp add: calculate_score_def negative_days_count Let_def)

lemma simulate_day_Inr:
  assumes "simulate_day g dy d = Inr (pnl, g1)"
  shows "(\<exists>bid ask c. daily_results g1 = daily_results g @ [(dy, bid, ask, pnl, c)])
         \<and> total_pnl g1 = total_pnl g \<and> days g1 = days g
         \<and> challenge_manager g1 = challenge_manager g \<and> market_maker g1 = market_maker g"
  using assms
  by (auto simp: simulate_day_def log_daily_results_def Let_def
           split: sum.splits prod.splits)

lemma run_days_total_pnl:
  "run_days g rnd ds = Inr g' \<Longrightarrow>
   total_pnl g' - sum_list (map pnl_of (daily_results g'))
     = total_pnl g - sum_list (map pnl_of (daily_results g))"
proof (induction ds arbitrary: g)
  case Nil
  then show ?case by simp
next
  case (Cons dy ds)
  from Cons.prems obtain pnl g1 where
    sd: "simulate_day g dy (rnd dy) = Inr (pnl, g1)" and
    rest: "run_days (g1\<lparr>total_pnl := total_pnl g1 + pnl\<rparr>) rnd ds = Inr g'"
    by (auto split: sum.splits)
  from simulate_day_Inr [OF sd] obtain bid ask c where
    "daily_results g1 = daily_results g @ [(dy, bid, ask, pnl, c)]" "total_pnl g1 = total_pnl g"
    by blast
  with Cons.IH [OF rest] show ?case
    by (simp add: pnl_of_def)
qed

lemma run_total_pnl:
  assumes "run (Game_init m cm mm n) rnd = Inr (score, g')"
  shows "total_pnl g' = sum_list (map pnl_of (daily_results g'))" "score = calculate_score g'"
proof -
  from assms have rd: "run_days (Game_init m cm mm n) rnd [1..n] = Inr g'"
    and sc: "score = calculate_score g'"
    by (auto simp: run_def Game_init_def split: sum.splits)
  from run_days_total_pnl [OF rd] show "total_pnl g' = sum_list (map pnl_of (daily_results g'))"
    by (simp add: Game_init_def)
  from sc show "score = calculate_score g'" .
qed

lemma math_exp_0: "math_exp 0 = Inr 1"
  by (simp add: math_exp_def DBL_MAX_def)

lemma example_run_returns: "\<exists>score g'. run example_game (\<lambda>dy. example_draws) = Inr (score, g')"
  by (simp add: example_game_def example_draws_def run_def Game_init_def Market_init_def
     ChallengeManager_init_def simulate_day_def update_def random_gauss_def math_exp_0
     get_state_def ChallengeManager_apply_challenge_def get_random_challenge_def
     random_choice_def apply_targets_def py_div_def Market_apply_challenge_def make_market_def
     SimpleMarketMaker_default_def SimpleMarketMaker_init_def simulate_trades_def double_eval
     calculate_daily_pnl_def log_daily_results_def Let_def upto.simps)

lemma example_finished_streak: "get_max_consecutive_positive_days example_finished = 4"
  by (simp add: example_finished_def example_results_def get_max_consecutive_positive_days_def
      streak_step_def pnl_of_def Game_init_def)

text \<open>
  C1: when \<open>run\<close> returns, the accumulated total P\&L is the sum of the recorded daily
  P\&Ls, and the score is that total minus 10 for every recorded day with a negative P\&L plus
  5 for every day of the longest run of consecutive days with a positive P\&L, floored at 0.
  \<open>calculate_score\<close> computes this formula in every state of the game; for a total of
  100, three losing days and a longest streak of four the score is 90; the score is never
  negative.
\<close>

theorem score_formula:
  "(run (Game_init m cm mm n) rnd = Inr (score, g') \<longrightarrow>
      total_pnl g' = sum_list (map pnl_of (daily_results g')) \<and>
      (\<exists>S. is_longest_positive_run (map pnl_of (daily_results g')) S \<and>
         score = max 0 (sum_list (map pnl_of (daily_results g'))
                        - 10 * real (length (filter (\<lambda>r. pnl_of r < 0) (daily_results g')))
                        + 5 * real_of_int S)))
   \<and> (\<forall>S. is_longest_positive_run (map pnl_of (daily_results g)) S \<longrightarrow>
         calculate_score g =
           max 0 (total_pnl g
                  - 10 * real (length (filter (\<lambda>r. pnl_of r < 0) (daily_results g)))
                  + 5 * real_of_int S))
   \<and> (total_pnl g = 100 \<and> length (filter (\<lambda>r. pnl_of r < 0) (daily_results g)) = 3
        \<and> is_longest_positive_run (map pnl_of (daily_results g)) 4
      \<longrightarrow> calculate_score g = 90)
   \<and> 0 \<le> calculate_score g"
proof (intro conjI impI allI)
  assume r: "run (Game_init m cm mm n) rnd = Inr (score, g')"
  from run_total_pnl [OF r]
  show "total_pnl g' = sum_list (map pnl_of (daily_results g'))" by simp
  from run_total_pnl [OF r] streak_is_longest [of g']
  show "\<exists>S. is_longest_positive_run (map pnl_of (daily_results g')) S \<and>
         score = max 0 (sum_list (map pnl_of (daily_results g'))
                        - 10 * real (length (filter (\<lambda>r. pnl_of r < 0) (daily_results g')))
                        + 5 * real_of_int S)"
    by (auto simp: calculate_score_eq)
next
  fix S assume "is_longest_positive_run (map pnl_of (daily_results g)) S"
  from longest_positive_run_unique [OF this streak_is_longest]
  show "calculate_score g =
           max 0 (total_pnl g
                  - 10 * real (length (filter (\<lambda>r. pnl_of r < 0) (daily_results g)))
                  + 5 * real_of_int S)"
    by (simp add: calculate_score_eq)
next
  assume a: "total_pnl g = 100 \<and> length (filter (\<lambda>r. pnl_of r < 0) (daily_results g)) = 3
        \<and> is_longest_positive_run (map pnl_of (daily_results g)) 4"
  then have "get_max_consecutive_positive_days g = 4"
    using longest_positive_run_unique [OF _ streak_is_longest, of g 4] by simp
  with a show "calculate_score g = 90"
    by (simp add: calculate_score_eq)
next
  show "0 \<le> calculate_score g"
    by (simp add: calculate_score_eq)
qed

theorem score_formula_witness:
  "(\<exists>score g'. run example_game (\<lambda>dy. example_draws) = Inr (score, g')
      \<and> total_pnl g' = sum_list (map pnl_of (daily_results g'))
      \<and> 0 \<le> score)
   \<and> total_pnl example_finished = 100
   \<and> length (filter (\<lambda>r. pnl_of r < 0) (daily_results example_finished)) = 3
   \<and> is_longest_positive_run (map pnl_of (daily_results example_finished)) 4
   \<and> calculate_score example_finished = 90"
proof -
  obtain sc g where r: "run example_game (\<lambda>dy. example_draws) = Inr (sc, g)"
    using example_run_returns by blast
  have t: "total_pnl example_finished = 100"
    by (simp add: example_finished_def)
  have n: "length (filter (\<lambda>r. pnl_of r < 0) (daily_results example_finished)) = 3"
    by (simp add: example_finished_def example_results_def pnl_of_def)
  have s: "is_longest_positive_run (map pnl_of (daily_results example_finished)) 4"
    using streak_is_longest [of example_finished] example_finished_streak by simp
  note th = score_formula [of "Market_init 100 0.02" ChallengeManager_init
      "make_market SimpleMarketMaker_default" 1 "\<lambda>dy. example_draws" sc g example_finished]
  have "total_pnl g = sum_list (map pnl_of (daily_results g))"
    using th r by (simp add: example_game_def)
  moreover have "0 \<le> sc"
    using th r by (auto simp: example_game_def)
  moreover have "calculate_score example_finished = 90"
    using th t n s by blast
  ultimately show ?thesis using r t n s by blast
qed

text \<open>
  C6: the value \<open>get_max_consecutive_positive_days\<close> returns is the length of the
  longest block of consecutive recorded days whose P\&L is positive. A day with a P\&L of
  zero or less sets the current streak to zero and leaves the maximum as it is; a day with a
  positive P\&L extends the current streak by one. For the P\&L sequence
  1, 2, -1, 3, 4, 5, -1 the result is 3, and for 1, 0, 1 it is 1.
\<close>

theorem longest_streak:
  "is_longest_positive_run (map pnl_of (daily_results g)) (get_max_consecutive_positive_days g)
   \<and> (\<forall>r m c. pnl_of r \<le> 0 \<longrightarrow> streak_step r (m, c) = (m, 0))
   \<and> (\<forall>r m c. 0 < pnl_of r \<longrightarrow> streak_step r (m, c) = (max m (c + 1), c + 1))
   \<and> (map pnl_of (daily_results g) = [1, 2, -1, 3, 4, 5, -1]
        \<longrightarrow> get_max_consecutive_positive_days g = 3)
   \<and> (map pnl_of (daily_results g) = [1, 0, 1]
        \<longrightarrow> get_max_consecutive_positive_days g = 1)"
proof (intro conjI allI impI)
  show "is_longest_positive_run (map pnl_of (daily_results g)) (get_max_consecutive_positive_days g)"
    by (rule streak_is_longest)
next
  fix r m c assume "pnl_of r \<le> 0"
  then show "streak_step r (m, c) = (m, 0)" by (simp add: streak_step_def)
next
  fix r m c assume "0 < pnl_of r"
  then show "streak_step r (m, c) = (max m (c + 1), c + 1)" by (simp add: streak_step_def)
next
  assume "map pnl_of (daily_results g) = [1, 2, -1, 3, 4, 5, -1]"
  then show "get_max_consecutive_positive_days g = 3"
    by (auto simp: map_eq_Cons_conv get_max_consecutive_positive_days_def streak_step_def)
next
  assume "map pnl_of (daily_results g) = [1, 0, 1]"
  then show "get_max_consecutive_positive_days g = 1"
    by (auto simp: map_eq_Cons_conv get_max_consecutive_positive_days_def streak_step_def)
qed

theorem longest_streak_witness:
  "map pnl_of (daily_results (example_finished\<lparr>daily_results :=
       [(1, 99, 101, 1, ''Bull Run''), (2, 99, 101, 2, ''Bull Run''),
        (3, 99, 101, -1, ''Market Crash''), (4, 99, 101, 3, ''Bull Run''),
        (5, 99, 101, 4, ''Calm Markets''), (6, 99, 101, 5, ''Bull Run''),
        (7, 99, 101, -1, ''Market Crash'')]\<rparr>)) = [1, 2, -1, 3, 4, 5, -1]
   \<and> get_max_consecutive_positive_days (example_finished\<lparr>daily_results :=
       [(1, 99, 101, 1, ''Bull Run''), (2, 99, 101, 2, ''Bull Run''),
        (3, 99, 101, -1, ''Market Crash''), (4, 99, 101, 3, ''Bull Run''),
        (5, 99, 101, 4, ''Calm Markets''), (6, 99, 101, 5, ''Bull Run''),
        (7, 99, 101, -1, ''Market Crash'')]\<rparr>) = 3
   \<and> pnl_of (2, 99, 101, 0, ''Calm Markets'') \<le> 0
   \<and> streak_step (2, 99, 101, 0, ''Calm Markets'') (1, 1) = (1, 0)
   \<and> 0 < pnl_of (2, 99, 101, 7, ''Bull Run'')
   \<and> streak_step (2, 99, 101, 7, ''Bull Run'') (1, 1) = (2, 2)"
proof -
  let ?g = "example_finished\<lparr>daily_results :=
       [(1, 99, 101, 1, ''Bull Run''), (2, 99, 101, 2, ''Bull Run''),
        (3, 99, 101, -1, ''Market Crash''), (4, 99, 101, 3, ''Bull Run''),
        (5, 99, 101, 4, ''Calm Markets''), (6, 99, 101, 5, ''Bull Run''),
        (7, 99, 101, -1, ''Market Crash'')]\<rparr>"
  note th = longest_streak [of ?g]
  have p: "map pnl_of (daily_results ?g) = [1, 2, -1, 3, 4, 5, -1]"
    by (simp add: pnl_of_def)
  have "get_max_consecutive_positive_days ?g = 3"
    using th p by blast
  moreover have z: "pnl_of (2, 99, 101, 0, ''Calm Markets'') \<le> 0"
    by (simp add: pnl_of_def)
  moreover have "streak_step (2, 99, 101, 0, ''Calm Markets'') (1, 1) = (1, 0)"
    using th z by blast
  moreover have q: "0 < pnl_of (2, 99, 101, 7, ''Bull Run'')"
    by (simp add: pnl_of_def)
  moreover have "streak_step (2, 99, 101, 7, ''Bull Run'') (1, 1) = (2, 2)"
    using th q by fastforce
  ultimately show ?thesis using p by blast
qed

section \<open>The market process\<close>

lemma update_state:
  "volatility (state (update m d)) = volatility (state m)"
  "0.01 \<le> price (state (update m d))"
  "day (update m d) = day m + 1"
  "price (state (update m d)) =
     max 0.01 (price (state m) * update_factor (random_gauss (gauss_z d) 0 (volatility (state m))))"
  by (auto simp: update_def update_factor_def Let_def split: sum.splits)

lemma update_factor_bounds: "0.5 \<le> update_factor r" "update_factor r \<le> 2"
  by (auto simp: update_factor_def split: sum.splits)

lemma update_factor_overflow:
  "math_exp r = Inl e \<Longrightarrow> update_factor r = (if 0 < r then 2 else 0.5)"
  by (simp add: update_factor_def)

text \<open>
  \<open>math.exp\<close> overflows on positive returns only, so the \<open>0.5\<close> of the
  \<open>except\<close> branch is never taken.
\<close>

lemma math_exp_overflow_positive: "math_exp r = Inl e \<Longrightarrow> 0 < r"
proof -
  assume "math_exp r = Inl e"
  then have "DBL_MAX < exp r"
    by (simp add: math_exp_def split: if_splits)
  moreover have "1 \<le> DBL_MAX"
    by (simp add: DBL_MAX_def)
  ultimately have "1 < exp r" by linarith
  then show "0 < r" by simp
qed

lemma exp_1024_overflows: "DBL_MAX < exp (1024::real)"
proof -
  have "2 \<le> exp (1::real)"
    using exp_ge_add_one_self [of "1::real"] by simp
  then have "(2::real) ^ 1024 \<le> exp 1 ^ 1024"
    by (intro power_mono) simp_all
  moreover have "exp (1024::real) = exp 1 ^ 1024"
    using exp_of_nat_mult [of 1024 "1::real"] by simp
  moreover have "DBL_MAX < 2 ^ 1024"
    by (simp add: DBL_MAX_def)
  ultimately show ?thesis by linarith
qed

lemma apply_challenge_state:
  "price (state (Market_apply_challenge m pf vf)) = max 0.01 (price (state m) * pf)"
  "volatility (state (Market_apply_challenge m pf vf)) = max 0.001 (volatility (state m) * vf)"
  "day (Market_apply_challenge m pf vf) = day m"
  by (simp_all add: Market_apply_challenge_def Let_def)

lemma apply_challenge_inv: "market_inv (Market_apply_challenge m pf vf)"
  by (simp add: market_inv_def apply_challenge_state)

lemma update_inv: "market_inv m \<Longrightarrow> market_inv (update m d)"
  by (simp add: market_inv_def update_state)

lemma apply_targets_nonzero:
  "price (state m) \<noteq> 0 \<Longrightarrow> volatility (state m) \<noteq> 0 \<Longrightarrow>
   apply_targets m np nv = Inr (m\<lparr>state := \<lparr>price = max 0.01 np, volatility = max 0.001 nv\<rparr>\<rparr>)"
  by (simp add: apply_targets_def py_div_def get_state_def Market_apply_challenge_def)

text \<open>
  C3: the market-state invariant, price at least 0.01 and volatility at least 0.001, is
  preserved by \<open>update\<close> and established by \<open>Market.apply_challenge\<close> from every
  state and for every pair of factors, zero and negative factors included. These two methods
  are the only ones that assign to the state.
\<close>

theorem market_floor_invariant:
  "(market_inv m \<longrightarrow> market_inv (update m d))
   \<and> market_inv (Market_apply_challenge m price_factor volatility_factor)
   \<and> 0.01 \<le> price (state (Market_apply_challenge m price_factor volatility_factor))
   \<and> 0.001 \<le> volatility (state (Market_apply_challenge m price_factor volatility_factor))"
  using update_inv [of m d] apply_challenge_inv [of m price_factor volatility_factor]
  by (simp add: market_inv_def)

theorem market_floor_invariant_witness:
  "market_inv (Market_init 100 0.02)
   \<and> market_inv (update (Market_init 100 0.02) example_draws)
   \<and> market_inv (Market_apply_challenge (Market_init 100 0.02) 0 (-1))
   \<and> price (state (Market_apply_challenge (Market_init 100 0.02) 0 (-1))) = 0.01
   \<and> volatility (state (Market_apply_challenge (Market_init 100 0.02) 0 (-1))) = 0.001"
proof -
  have i: "market_inv (Market_init 100 0.02)"
    by (simp add: market_inv_def Market_init_def)
  note th = market_floor_invariant [of "Market_init 100 0.02" example_draws 0 "-1"]
  have "market_inv (update (Market_init 100 0.02) example_draws)"
    using th i by blast
  moreover have "market_inv (Market_apply_challenge (Market_init 100 0.02) 0 (-1))"
    using th by blast
  moreover have "price (state (Market_apply_challenge (Market_init 100 0.02) 0 (-1))) = 0.01"
    "volatility (state (Market_apply_challenge (Market_init 100 0.02) 0 (-1))) = 0.001"
    by (simp_all add: Market_apply_challenge_def Market_init_def)
  ultimately show ?thesis using i by blast
qed

text \<open>
  C4: one call of \<open>update\<close> leaves the volatility as it was and the price at least 0.01.
  The new price is the old price times \<open>update_factor\<close> of the drawn return, floored at
  0.01, and that factor lies between 0.5 and 2.0 for every return. When \<open>math.exp\<close>
  overflows the factor is 2.0 for a positive return and 0.5 otherwise.
\<close>

theorem update_clamps_factor:
  "volatility (state (update m d)) = volatility (state m)
   \<and> 0.01 \<le> price (state (update m d))
   \<and> price (state (update m d)) =
       max 0.01 (price (state m) * update_factor (random_gauss (gauss_z d) 0 (volatility (state m))))
   \<and> 0.5 \<le> update_factor r \<and> update_factor r \<le> 2.0
   \<and> (math_exp r = Inl OverflowError \<longrightarrow> update_factor r = (if 0 < r then 2.0 else 0.5))"
  using update_state [of m d] update_factor_bounds [of r] update_factor_overflow [of r OverflowError]
  by simp

theorem update_clamps_factor_witness:
  "math_exp 1024 = Inl OverflowError \<and> update_factor 1024 = 2.0
   \<and> price (state (update \<lparr>state = \<lparr>price = 100, volatility = 1\<rparr>, day = 0\<rparr>
                      (example_draws\<lparr>gauss_z := 1024\<rparr>))) = 200"
proof -
  have o: "math_exp 1024 = Inl OverflowError"
    using exp_1024_overflows by (simp add: math_exp_def)
  note th = update_clamps_factor [of "\<lparr>state = \<lparr>price = 100, volatility = 1\<rparr>, day = 0\<rparr>"
      "example_draws\<lparr>gauss_z := 1024\<rparr>" 1024]
  have f: "update_factor 1024 = 2.0"
    using th o by simp
  have "price (state (update \<lparr>state = \<lparr>price = 100, volatility = 1\<rparr>, day = 0\<rparr>
                      (example_draws\<lparr>gauss_z := 1024\<rparr>))) = 200"
    using th f by (simp add: random_gauss_def example_draws_def)
  with o f show ?thesis by blast
qed

section \<open>Quotes of the default strategy\<close>





section \<open>Trades of a day\<close>

lemma buy_arith:
  fixes bid t :: real
  assumes "0 \<le> bid"
    and "\<bar>t - bid * (2254051613498933 / 2 ^ 51)\<bar> \<le> \<bar>bid * (2254051613498933 / 2 ^ 51)\<bar> / 2 ^ 53"
  shows "\<bar>t - bid * (1 + 0.001)\<bar> \<le> bid * (1 + 0.001) / 2 ^ 51"
proof -
  define x where "x = bid * (2254051613498933 / 2 ^ 51)"
  have x0: "0 \<le> x" using assms(1) by (simp add: x_def)
  have e: "\<bar>t - x\<bar> \<le> x / 2 ^ 53" using assms(2) x0 by (simp add: x_def)
  have k: "x / 2 ^ 53 + \<bar>x - bid * (1 + 0.001)\<bar> \<le> bid * (1 + 0.001) / 2 ^ 51"
    using assms(1) by (simp add: x_def abs_if field_simps)
  from e k show ?thesis by linarith
qed

lemma sell_arith:
  fixes ask t :: real
  assumes "0 \<le> ask"
    and "\<bar>t - ask * (8998192055486251 / 2 ^ 53)\<bar> \<le> \<bar>ask * (8998192055486251 / 2 ^ 53)\<bar> / 2 ^ 53"
  shows "\<bar>t - ask * (1 - 0.001)\<bar> \<le> ask * (1 - 0.001) / 2 ^ 51"
proof -
  define x where "x = ask * (8998192055486251 / 2 ^ 53)"
  have x0: "0 \<le> x" using assms(1) by (simp add: x_def)
  have e: "\<bar>t - x\<bar> \<le> x / 2 ^ 53" using assms(2) x0 by (simp add: x_def)
  have k: "x / 2 ^ 53 + \<bar>x - ask * (1 - 0.001)\<bar> \<le> ask * (1 - 0.001) / 2 ^ 51"
    using assms(1) by (simp add: x_def abs_if field_simps)
  from e k show ?thesis by linarith
qed

lemma buy_threshold_error:
  assumes "1 / 2 ^ 1021 \<le> bid" and "bid \<le> 2 ^ 1022"
  shows "\<exists>t. double_mul bid (double_add 1 (double_round 0.001)) = Num t
           \<and> \<bar>t - bid * (1 + 0.001)\<bar> \<le> bid * (1 + 0.001) / 2 ^ 51"
proof -
  let ?x = "bid * (2254051613498933 / 2 ^ 51)"
  have lo: "1 / 2 ^ 1022 \<le> \<bar>?x\<bar>" and hi: "\<bar>?x\<bar> \<le> 3 * 2 ^ 1022"
    using assms by simp_all
  from to_double_finite [OF lo hi]
  have t: "double_mul bid (double_add 1 (double_round 0.001)) = Num (double_round ?x)"
    by (simp only: buffer_factors double_mul.simps)
  from assms(1) have "0 \<le> bid" by simp
  from buy_arith [OF this double_round_error [OF lo]]
  have "\<bar>double_round ?x - bid * (1 + 0.001)\<bar> \<le> bid * (1 + 0.001) / 2 ^ 51" .
  with t show ?thesis by blast
qed

lemma sell_threshold_error:
  assumes "1 / 2 ^ 1021 \<le> ask" and "ask \<le> 2 ^ 1022"
  shows "\<exists>t. double_mul ask (double_sub 1 (double_round 0.001)) = Num t
           \<and> \<bar>t - ask * (1 - 0.001)\<bar> \<le> ask * (1 - 0.001) / 2 ^ 51"
proof -
  let ?x = "ask * (8998192055486251 / 2 ^ 53)"
  have lo: "1 / 2 ^ 1022 \<le> \<bar>?x\<bar>" and hi: "\<bar>?x\<bar> \<le> 3 * 2 ^ 1022"
    using assms by simp_all
  from to_double_finite [OF lo hi]
  have t: "double_mul ask (double_sub 1 (double_round 0.001)) = Num (double_round ?x)"
    by (simp only: buffer_factors double_mul.simps)
  from assms(1) have "0 \<le> ask" by simp
  from sell_arith [OF this double_round_error [OF lo]]
  have "\<bar>double_round ?x - ask * (1 - 0.001)\<bar> \<le> ask * (1 - 0.001) / 2 ^ 51" .
  with t show ?thesis by blast
qed

text \<open>
  \<open>random.random()\<close> returns a multiple of \<open>2^-53\<close>; for such a draw the comparison with
  the literal \<open>0.1\<close> and the comparison with one tenth agree.
\<close>

lemma random_below_tenth:
  "real k / 2 ^ 53 < double_round 0.1 \<longleftrightarrow> real k / 2 ^ 53 < 0.1"
proof -
  have "real k / 2 ^ 53 < double_round 0.1 \<longleftrightarrow> k < 900719925474100"
    by (simp add: literal_values field_simps) linarith
  moreover have "real k / 2 ^ 53 < 0.1 \<longleftrightarrow> k < 900719925474100"
    by (simp add: field_simps) linarith
  ultimately show ?thesis by simp
qed

lemma threshold_99: "double_mul 99 (double_add 1 (double_round 0.001)) = Num (1743368044815581 / 2 ^ 44)"
  by (simp add: double_eval)

text \<open>
  C5, as amended: the trades of a day are the deterministic trade followed by the random
  trade. The deterministic trade is a buy of one unit at the bid when the market price is
  at most \<open>bid * (1 + 0.001)\<close> as the program computes it, in double precision; otherwise a
  sell of one unit at the ask when the price is at least \<open>ask * (1 - 0.001)\<close>, computed
  likewise; otherwise none. For a positive bid or ask in the normal range the computed
  threshold is within a relative distance of \<open>2^-51\<close> of the exact product. The random
  trade is added when the draw of \<open>random.random()\<close> is below the literal \<open>0.1\<close>, whatever
  the deterministic rule did, and is a buy at the bid or a sell at the ask as the second draw
  decides; for the multiples of \<open>2^-53\<close> that \<open>random.random()\<close> returns this is the
  comparison with one tenth. A day has at most two trades. For a bid of 99 the computed
  threshold is 99.09899999999999, and with an ask of 101 and a market price of 99.05 the
  first trade is a buy at 99.
\<close>

theorem simulate_trades_rule:
  "simulate_trades g bid ask d =
     (if double_le (price (state (market g))) (double_mul bid (double_add 1 (double_round 0.001)))
      then [TradeResult ''buy'' bid 1]
      else if double_ge (price (state (market g)))
                (double_mul ask (double_sub 1 (double_round 0.001)))
      then [TradeResult ''sell'' ask 1]
      else [])
     @ (if random_u d < double_round 0.1
        then [if choice_b d then TradeResult ''buy'' bid 1 else TradeResult ''sell'' ask 1]
        else [])
   \<and> length (simulate_trades g bid ask d) \<le> 2
   \<and> {u. 0 \<le> u \<and> u < 1 \<and>
          simulate_trades g bid ask (d\<lparr>random_u := u\<rparr>)
            \<noteq> simulate_trades g bid ask (d\<lparr>random_u := 1\<rparr>)} = {0..<double_round 0.1}
   \<and> (real k / 2 ^ 53 < double_round 0.1 \<longleftrightarrow> real k / 2 ^ 53 < 0.1)
   \<and> (1 / 2 ^ 1021 \<le> bid \<and> bid \<le> 2 ^ 1022 \<longrightarrow>
        (\<exists>t. double_mul bid (double_add 1 (double_round 0.001)) = Num t
           \<and> \<bar>t - bid * (1 + 0.001)\<bar> \<le> bid * (1 + 0.001) / 2 ^ 51))
   \<and> (1 / 2 ^ 1021 \<le> ask \<and> ask \<le> 2 ^ 1022 \<longrightarrow>
        (\<exists>t. double_mul ask (double_sub 1 (double_round 0.001)) = Num t
           \<and> \<bar>t - ask * (1 - 0.001)\<bar> \<le> ask * (1 - 0.001) / 2 ^ 51))
   \<and> double_mul 99 (double_add 1 (double_round 0.001)) = Num (1743368044815581 / 2 ^ 44)
   \<and> (price (state (market g)) = 99.05 \<longrightarrow>
        (\<exists>extra. simulate_trades g 99 101 d = TradeResult ''buy'' 99 1 # extra))"
proof (intro conjI impI)
  show "simulate_trades g bid ask d =
     (if double_le (price (state (market g))) (double_mul bid (double_add 1 (double_round 0.001)))
      then [TradeResult ''buy'' bid 1]
      else if double_ge (price (state (market g)))
                (double_mul ask (double_sub 1 (double_round 0.001)))
      then [TradeResult ''sell'' ask 1]
      else [])
     @ (if random_u d < double_round 0.1
        then [if choice_b d then TradeResult ''buy'' bid 1 else TradeResult ''sell'' ask 1]
        else [])"
    by (simp add: simulate_trades_def get_state_def Let_def)
  show "length (simulate_trades g bid ask d) \<le> 2"
    by (simp add: simulate_trades_def get_state_def Let_def)
  have "double_round 0.1 < 1" by (simp add: literal_values)
  then show "{u. 0 \<le> u \<and> u < 1 \<and>
          simulate_trades g bid ask (d\<lparr>random_u := u\<rparr>)
            \<noteq> simulate_trades g bid ask (d\<lparr>random_u := 1\<rparr>)} = {0..<double_round 0.1}"
    by (auto simp: simulate_trades_def get_state_def Let_def)
  show "real k / 2 ^ 53 < double_round 0.1 \<longleftrightarrow> real k / 2 ^ 53 < 0.1"
    by (rule random_below_tenth)
  show "double_mul 99 (double_add 1 (double_round 0.001)) = Num (1743368044815581 / 2 ^ 44)"
    by (rule threshold_99)
next
  assume "1 / 2 ^ 1021 \<le> bid \<and> bid \<le> 2 ^ 1022"
  then show "\<exists>t. double_mul bid (double_add 1 (double_round 0.001)) = Num t
           \<and> \<bar>t - bid * (1 + 0.001)\<bar> \<le> bid * (1 + 0.001) / 2 ^ 51"
    using buy_threshold_error [of bid] by blast
next
  assume "1 / 2 ^ 1021 \<le> ask \<and> ask \<le> 2 ^ 1022"
  then show "\<exists>t. double_mul ask (double_sub 1 (double_round 0.001)) = Num t
           \<and> \<bar>t - ask * (1 - 0.001)\<bar> \<le> ask * (1 - 0.001) / 2 ^ 51"
    using sell_threshold_error [of ask] by blast
next
  assume "price (state (market g)) = 99.05"
  then show "\<exists>extra. simulate_trades g 99 101 d = TradeResult ''buy'' 99 1 # extra"
    unfolding simulate_trades_def get_state_def Let_def threshold_99 by simp
qed

theorem simulate_trades_rule_witness:
  "price (state (market (example_game\<lparr>market := Market_init 99.05 0.02\<rparr>))) = 99.05
   \<and> simulate_trades (example_game\<lparr>market := Market_init 99.05 0.02\<rparr>) 99 101
         (example_draws\<lparr>random_u := 0.5\<rparr>) = [TradeResult ''buy'' 99 1]
   \<and> simulate_trades (example_game\<lparr>market := Market_init 99.05 0.02\<rparr>) 99 101
         (example_draws\<lparr>choice_b := False\<rparr>) = [TradeResult ''buy'' 99 1, TradeResult ''sell'' 101 1]
   \<and> 1 / 2 ^ 1021 \<le> (99::real) \<and> (99::real) \<le> 2 ^ 1022
   \<and> 1 / 2 ^ 1021 \<le> (101::real) \<and> (101::real) \<le> 2 ^ 1022
   \<and> (\<exists>t. double_mul 99 (double_add 1 (double_round 0.001)) = Num t
         \<and> \<bar>t - 99 * (1 + 0.001)\<bar> \<le> 99 * (1 + 0.001) / 2 ^ 51)
   \<and> (\<exists>t. double_mul 101 (double_sub 1 (double_round 0.001)) = Num t
         \<and> \<bar>t - 101 * (1 - 0.001)\<bar> \<le> 101 * (1 - 0.001) / 2 ^ 51)"
proof -
  let ?g = "example_game\<lparr>market := Market_init 99.05 0.02\<rparr>"
  have p: "price (state (market ?g)) = 99.05"
    by (simp add: Market_init_def)
  have r: "1 / 2 ^ 1021 \<le> (99::real)" "(99::real) \<le> 2 ^ 1022"
      "1 / 2 ^ 1021 \<le> (101::real)" "(101::real) \<le> 2 ^ 1022"
    by simp_all
  note th1 = simulate_trades_rule [of ?g 99 101 "example_draws\<lparr>random_u := 0.5\<rparr>" 0]
  note th2 = simulate_trades_rule [of ?g 99 101 "example_draws\<lparr>choice_b := False\<rparr>" 0]
  from th1 p obtain extra where
    e: "simulate_trades ?g 99 101 (example_draws\<lparr>random_u := 0.5\<rparr>) = TradeResult ''buy'' 99 1 # extra"
    by blast
  have a: "simulate_trades ?g 99 101 (example_draws\<lparr>random_u := 0.5\<rparr>) = [TradeResult ''buy'' 99 1]"
    unfolding simulate_trades_def get_state_def Let_def threshold_99 literal_values(2)
    by (simp add: Market_init_def)
  from th2 p obtain extra2 where
    "simulate_trades ?g 99 101 (example_draws\<lparr>choice_b := False\<rparr>) = TradeResult ''buy'' 99 1 # extra2"
    by blast
  have b: "simulate_trades ?g 99 101 (example_draws\<lparr>choice_b := False\<rparr>)
      = [TradeResult ''buy'' 99 1, TradeResult ''sell'' 101 1]"
    unfolding simulate_trades_def get_state_def Let_def threshold_99 literal_values(2)
    by (simp add: Market_init_def example_draws_def)
  have c: "\<exists>t. double_mul 99 (double_add 1 (double_round 0.001)) = Num t
         \<and> \<bar>t - 99 * (1 + 0.001)\<bar> \<le> 99 * (1 + 0.001) / 2 ^ 51"
    using th1 r by blast
  have d: "\<exists>t. double_mul 101 (double_sub 1 (double_round 0.001)) = Num t
         \<and> \<bar>t - 101 * (1 - 0.001)\<bar> \<le> 101 * (1 - 0.001) / 2 ^ 51"
    using th1 r by blast
  from p a b r c d show ?thesis by (intro conjI)
qed

text \<open>
  C5 as first stated, with the thresholds of exact arithmetic, fails at the boundary: for
  a bid of 1000, an ask of 1002 and a market price of 1001 the price is at most
  \<open>1000 * (1 + 0.001)\<close>, yet the program computes the threshold 1000.9999999999999 and
  records a sell at 1002 instead of a buy.
\<close>

theorem simulate_trades_exact_threshold_counterexample:
  "(1001::real) \<le> 1000 * (1 + 0.001)
   \<and> price (state (market (example_game\<lparr>market := Market_init 1001 0.02\<rparr>))) = 1001
   \<and> double_mul 1000 (double_add 1 (double_round 0.001)) = Num (8804889115230207 / 2 ^ 43)
   \<and> simulate_trades (example_game\<lparr>market := Market_init 1001 0.02\<rparr>) 1000 1002
         (example_draws\<lparr>random_u := 0.5\<rparr>) = [TradeResult ''sell'' 1002 1]"
  by (simp add: simulate_trades_def get_state_def Market_init_def double_eval)

section \<open>Challenge targets as relative factors\<close>


text \<open>
  When the quotient overflows, the price left is an infinity: from a price of 0.5 and the
  target \<open>2^1023\<close> the quotient is beyond the largest double.
\<close>

lemma apply_targets_double_overflow:
  "apply_targets_double \<lparr>state = \<lparr>price = 0.5, volatility = 0.5\<rparr>, day = 1\<rparr> (2 ^ 1023) 0.25
     = Inr (PosInf, Num 0.25)"
  by (simp add: apply_targets_double_def Market_apply_challenge_double_def get_state_def
      double_eval)




section \<open>The simulation loop\<close>

lemma get_random_challenge_Inr:
  "challenges cm \<noteq> [] \<Longrightarrow> \<exists>c. get_random_challenge cm d = Inr c"
  by (simp add: get_random_challenge_def random_choice_def)

lemma get_random_challenge_error:
  "get_random_challenge cm d = Inl e \<Longrightarrow> e = IndexError"
  by (simp add: get_random_challenge_def random_choice_def split: if_splits)

lemma apply_targets_update:
  assumes "volatility (state m) \<noteq> 0"
  shows "apply_targets (update m d) np nv
     = Inr ((update m d)\<lparr>state := \<lparr>price = max 0.01 np, volatility = max 0.001 nv\<rparr>\<rparr>)"
proof -
  have "price (state (update m d)) \<noteq> 0" using update_state(2) [of m d] by simp
  moreover have "volatility (state (update m d)) \<noteq> 0" using assms by (simp add: update_state)
  ultimately show ?thesis by (rule apply_targets_nonzero)
qed

lemma simulate_day_error:
  assumes "volatility (state (market g)) \<noteq> 0" and "simulate_day g dy d = Inl e"
  shows "e = IndexError"
  using assms(2) apply_targets_update [OF assms(1)] get_random_challenge_error
  by (auto simp: simulate_day_def ChallengeManager_apply_challenge_def Let_def
           split: sum.splits prod.splits)

lemma simulate_day_returns:
  assumes "volatility (state (market g)) \<noteq> 0" and "challenges (challenge_manager g) \<noteq> []"
  shows "\<exists>pnl g1. simulate_day g dy d = Inr (pnl, g1)"
proof -
  from get_random_challenge_Inr [OF assms(2)] obtain c
    where c: "get_random_challenge (challenge_manager g) d = Inr c" by blast
  show ?thesis
    using c apply_targets_update [OF assms(1)]
    by (simp add: simulate_day_def ChallengeManager_apply_challenge_def Let_def
           split: sum.splits prod.splits)
qed

lemma simulate_day_market:
  assumes "simulate_day g dy d = Inr (pnl, g1)"
  shows "market_inv (market g1)"
  using assms apply_challenge_inv
  by (auto simp: simulate_day_def log_daily_results_def apply_targets_def Let_def
           split: sum.splits prod.splits)

lemma market_inv_volatility: "market_inv m \<Longrightarrow> volatility (state m) \<noteq> 0"
  by (auto simp: market_inv_def)

lemma run_days_error:
  "volatility (state (market g)) \<noteq> 0 \<Longrightarrow> run_days g rnd ds = Inl e \<Longrightarrow> e = IndexError"
proof (induction ds arbitrary: g)
  case Nil
  then show ?case by simp
next
  case (Cons dy ds)
  show ?case
  proof (cases "simulate_day g dy (rnd dy)")
    case (Inl e')
    with Cons.prems(2) have "e' = e" by simp
    with simulate_day_error [OF Cons.prems(1) Inl] show ?thesis by simp
  next
    case (Inr r)
    obtain pnl g1 where r: "r = (pnl, g1)" by (cases r)
    from Inr r have sd: "simulate_day g dy (rnd dy) = Inr (pnl, g1)" by simp
    from simulate_day_market [OF sd]
    have "volatility (state (market (g1\<lparr>total_pnl := total_pnl g1 + pnl\<rparr>))) \<noteq> 0"
      by (simp add: market_inv_volatility)
    moreover from Cons.prems(2) sd
    have "run_days (g1\<lparr>total_pnl := total_pnl g1 + pnl\<rparr>) rnd ds = Inl e" by simp
    ultimately show ?thesis by (rule Cons.IH)
  qed
qed

lemma run_days_returns:
  "volatility (state (market g)) \<noteq> 0 \<Longrightarrow> challenges (challenge_manager g) \<noteq> [] \<Longrightarrow>
   \<exists>g'. run_days g rnd ds = Inr g'"
proof (induction ds arbitrary: g)
  case Nil
  then show ?case by simp
next
  case (Cons dy ds)
  from simulate_day_returns [OF Cons.prems] obtain pnl g1
    where sd: "simulate_day g dy (rnd dy) = Inr (pnl, g1)" by blast
  from simulate_day_market [OF sd]
  have "volatility (state (market (g1\<lparr>total_pnl := total_pnl g1 + pnl\<rparr>))) \<noteq> 0"
    by (simp add: market_inv_volatility)
  moreover from simulate_day_Inr [OF sd] Cons.prems(2)
  have "challenges (challenge_manager (g1\<lparr>total_pnl := total_pnl g1 + pnl\<rparr>)) \<noteq> []"
    by simp
  ultimately obtain g' where "run_days (g1\<lparr>total_pnl := total_pnl g1 + pnl\<rparr>) rnd ds = Inr g'"
    using Cons.IH by blast
  with sd show ?case by simp
qed

lemma run_days_log:
  "run_days g rnd ds = Inr g' \<Longrightarrow>
   \<exists>new. daily_results g' = daily_results g @ new \<and> map day_of new = ds"
proof (induction ds arbitrary: g)
  case Nil
  then show ?case by simp
next
  case (Cons dy ds)
  from Cons.prems obtain pnl g1 where
    sd: "simulate_day g dy (rnd dy) = Inr (pnl, g1)" and
    rest: "run_days (g1\<lparr>total_pnl := total_pnl g1 + pnl\<rparr>) rnd ds = Inr g'"
    by (auto split: sum.splits)
  from simulate_day_Inr [OF sd] obtain bid ask c where
    l: "daily_results g1 = daily_results g @ [(dy, bid, ask, pnl, c)]" by blast
  from Cons.IH [OF rest] obtain new where
    n: "daily_results g' = daily_results (g1\<lparr>total_pnl := total_pnl g1 + pnl\<rparr>) @ new"
       "map day_of new = ds"
    by blast
  from n(1) l have a: "daily_results g' = daily_results g @ ((dy, bid, ask, pnl, c) # new)"
    by simp
  from n(2) have b: "map day_of ((dy, bid, ask, pnl, c) # new) = dy # ds"
    by (simp add: day_of_def)
  from a b show ?case
    by (intro exI [of _ "(dy, bid, ask, pnl, c) # new"] conjI)
qed

lemma ChallengeManager_init_nonempty: "challenges ChallengeManager_init \<noteq> []"
  by (simp add: ChallengeManager_init_def)

lemma run_returns:
  assumes "volatility (state (market g)) \<noteq> 0" and "challenges (challenge_manager g) \<noteq> []"
  shows "\<exists>score g'. run g rnd = Inr (score, g') \<and>
           (\<exists>new. daily_results g' = daily_results g @ new \<and> map day_of new = [1..days g])"
proof -
  from run_days_returns [OF assms] obtain g' where r: "run_days g rnd [1..days g] = Inr g'"
    by blast
  from run_days_log [OF r] r show ?thesis
    by (simp add: run_def)
qed

lemma run_error:
  assumes "volatility (state (market g)) \<noteq> 0" and "run g rnd = Inl e"
  shows "e = IndexError"
proof -
  from assms(2) have "run_days g rnd [1..days g] = Inl e"
    by (simp add: run_def split: sum.splits)
  with run_days_error [OF assms(1)] show ?thesis by blast
qed

lemma example_day:
  "\<exists>g1. simulate_day example_game 1 example_draws = Inr (0.2, g1)
     \<and> daily_results g1 = [(1, 99.9, 100.1, 0.2, ''Calm Markets'')]
     \<and> state (market g1) = \<lparr>price = 100, volatility = 0.01\<rparr>"
  by (simp add: example_game_def example_draws_def Game_init_def Market_init_def
     ChallengeManager_init_def simulate_day_def update_def random_gauss_def math_exp_0
     get_state_def ChallengeManager_apply_challenge_def get_random_challenge_def
     random_choice_def apply_targets_def py_div_def Market_apply_challenge_def make_market_def
     SimpleMarketMaker_default_def SimpleMarketMaker_init_def simulate_trades_def double_eval
     calculate_daily_pnl_def log_daily_results_def Let_def)

text \<open>
  The data model requires a positive volatility. A market created with volatility 0 raises
  \<open>ZeroDivisionError\<close> on the first day, before anything is logged.
\<close>

lemma zero_volatility_raises:
  "run (Game_init (Market_init 100 0) ChallengeManager_init mm 1) rnd = Inl ZeroDivisionError"
  by (simp add: run_def Game_init_def Market_init_def ChallengeManager_init_def
     simulate_day_def update_def random_gauss_def math_exp_0 get_state_def
     ChallengeManager_apply_challenge_def get_random_challenge_def random_choice_def
     apply_targets_def py_div_def Let_def upto.simps split: prod.splits sum.splits)

text \<open>
  C8: a game over a market with positive initial volatility and the catalogue of
  \<open>ChallengeManager\<close>, configured for \<open>n\<close> days, returns a score, and its log then
  holds one record per day with the day fields 1 to \<open>n\<close> in order. The log is
  append-only: a simulated day leaves the earlier records as they were and appends one record
  carrying its day number, and so does every sequence of days.
\<close>

theorem run_logs_every_day:
  assumes "0 < v"
  shows "(\<exists>score g'. run (Game_init (Market_init p v) ChallengeManager_init mm n) rnd
              = Inr (score, g')
            \<and> map day_of (daily_results g') = [1..n]
            \<and> int (length (daily_results g')) = max 0 n)
   \<and> (simulate_day g dy d = Inr (pnl, g1) \<longrightarrow>
        (\<exists>bid ask c. daily_results g1 = daily_results g @ [(dy, bid, ask, pnl, c)]))
   \<and> (run_days g rnd ds = Inr g2 \<longrightarrow>
        (\<exists>new. daily_results g2 = daily_results g @ new \<and> map day_of new = ds))"
proof (intro conjI impI)
  let ?g = "Game_init (Market_init p v) ChallengeManager_init mm n"
  have "volatility (state (market ?g)) \<noteq> 0" "challenges (challenge_manager ?g) \<noteq> []"
    using assms by (simp_all add: Game_init_def Market_init_def ChallengeManager_init_nonempty)
  from run_returns [OF this, of rnd] obtain score g' new where
    r: "run ?g rnd = Inr (score, g')" and
    l: "daily_results g' = daily_results ?g @ new" "map day_of new = [1..days ?g]"
    by blast
  from l have m: "map day_of (daily_results g') = [1..n]"
    by (simp add: Game_init_def)
  have "length (map day_of (daily_results g')) = length [1..n]"
    by (simp only: m)
  then have "int (length (daily_results g')) = max 0 n"
    by simp
  with r m show "\<exists>score g'. run ?g rnd = Inr (score, g')
            \<and> map day_of (daily_results g') = [1..n]
            \<and> int (length (daily_results g')) = max 0 n"
    by blast
next
  assume "simulate_day g dy d = Inr (pnl, g1)"
  from simulate_day_Inr [OF this]
  show "\<exists>bid ask c. daily_results g1 = daily_results g @ [(dy, bid, ask, pnl, c)]" by blast
next
  assume "run_days g rnd ds = Inr g2"
  then show "\<exists>new. daily_results g2 = daily_results g @ new \<and> map day_of new = ds"
    by (rule run_days_log)
qed

theorem run_logs_every_day_witness:
  "(0::real) < 0.02
   \<and> (\<exists>score g'. run example_game (\<lambda>dy. example_draws) = Inr (score, g')
          \<and> map day_of (daily_results g') = [1]
          \<and> int (length (daily_results g')) = 1)
   \<and> (\<exists>pnl g1. simulate_day example_game 1 example_draws = Inr (pnl, g1)
          \<and> (\<exists>bid ask c. daily_results g1
                = daily_results example_game @ [(1, bid, ask, pnl, c)]))
   \<and> (\<exists>g2. run_days example_game (\<lambda>dy. example_draws) [1] = Inr g2
          \<and> (\<exists>new. daily_results g2 = daily_results example_game @ new
                \<and> map day_of new = [1]))"
proof -
  have v: "(0::real) < 0.02" by simp
  from example_day obtain g1 where
    sd: "simulate_day example_game 1 example_draws = Inr (0.2, g1)" by blast
  then obtain g2 where
    rd: "run_days example_game (\<lambda>dy. example_draws) [1] = Inr g2" by simp
  note th = run_logs_every_day [OF v, where p = 100 and mm = "make_market SimpleMarketMaker_default"
      and n = 1 and rnd = "\<lambda>dy. example_draws" and g = example_game and dy = 1
      and d = example_draws and pnl = "0.2" and ?g1.0 = g1 and ds = "[1]" and ?g2.0 = g2]
  have c1: "\<exists>score g'. run example_game (\<lambda>dy. example_draws) = Inr (score, g')
          \<and> map day_of (daily_results g') = [1]
          \<and> int (length (daily_results g')) = 1"
    using th by (simp add: example_game_def upto.simps)
  have "\<exists>bid ask c. daily_results g1
                = daily_results example_game @ [(1, bid, ask, 0.2, c)]"
    using th sd by blast
  with sd have c2: "\<exists>pnl g1. simulate_day example_game 1 example_draws = Inr (pnl, g1)
          \<and> (\<exists>bid ask c. daily_results g1
                = daily_results example_game @ [(1, bid, ask, pnl, c)])"
    by - (rule exI [of _ "0.2"], rule exI [of _ g1], intro conjI)
  have "\<exists>new. daily_results g2 = daily_results example_game @ new
                \<and> map day_of new = [1]"
    using th rd by blast
  with rd have c3: "\<exists>g2. run_days example_game (\<lambda>dy. example_draws) [1] = Inr g2
          \<and> (\<exists>new. daily_results g2 = daily_results example_game @ new
                \<and> map day_of new = [1])"
    by - (rule exI [of _ g2], intro conjI)
  from v c1 c2 c3 show ?thesis by (intro conjI)
qed

text \<open>
  C10: for a market created with positive price and positive volatility the run never
  raises \<open>ZeroDivisionError\<close>, whatever the challenge catalogue, the strategy, the number
  of days and the draws; with the catalogue of \<open>ChallengeManager\<close> it returns a score.
  At the divisions of a day the price has been floored to at least 0.01 by \<open>update\<close>, the
  volatility is still the positive value \<open>update\<close> found, both divisions succeed, and the
  perturbation leaves the volatility at least 0.001 for the next day.
\<close>

theorem no_division_by_zero:
  assumes "0 < p" and "0 < v"
  shows "run (Game_init (Market_init p v) cm mm n) rnd \<noteq> Inl ZeroDivisionError
   \<and> (\<exists>score g'. run (Game_init (Market_init p v) ChallengeManager_init mm n) rnd
          = Inr (score, g'))
   \<and> (0 < volatility (state m) \<longrightarrow>
        0.01 \<le> price (state (update m d)) \<and> 0 < volatility (state (update m d)) \<and>
        (\<exists>m2. apply_targets (update m d) new_price new_volatility = Inr m2
              \<and> 0.001 \<le> volatility (state m2)))"
proof (intro conjI impI)
  let ?g = "Game_init (Market_init p v) cm mm n"
  have v: "volatility (state (market ?g)) \<noteq> 0"
    using assms by (simp add: Game_init_def Market_init_def)
  show "run ?g rnd \<noteq> Inl ZeroDivisionError"
    using run_error [OF v, of rnd ZeroDivisionError] by auto
next
  let ?g = "Game_init (Market_init p v) ChallengeManager_init mm n"
  have "volatility (state (market ?g)) \<noteq> 0" "challenges (challenge_manager ?g) \<noteq> []"
    using assms by (simp_all add: Game_init_def Market_init_def ChallengeManager_init_nonempty)
  from run_returns [OF this, of rnd]
  show "\<exists>score g'. run ?g rnd = Inr (score, g')" by blast
next
  assume "0 < volatility (state m)"
  then show "0.01 \<le> price (state (update m d))" by (simp add: update_state)
next
  assume "0 < volatility (state m)"
  then show "0 < volatility (state (update m d))" by (simp add: update_state)
next
  assume "0 < volatility (state m)"
  then have "volatility (state m) \<noteq> 0" by simp
  from apply_targets_update [OF this, of d new_price new_volatility]
  show "\<exists>m2. apply_targets (update m d) new_price new_volatility = Inr m2
              \<and> 0.001 \<le> volatility (state m2)"
    by simp
qed

theorem no_division_by_zero_witness:
  "(0::real) < 100 \<and> (0::real) < 0.02
   \<and> run example_game (\<lambda>dy. example_draws) \<noteq> Inl ZeroDivisionError
   \<and> (\<exists>score g'. run example_game (\<lambda>dy. example_draws) = Inr (score, g'))
   \<and> 0 < volatility (state (Market_init 100 0.02))
   \<and> 0.01 \<le> price (state (update (Market_init 100 0.02) example_draws))
   \<and> 0 < volatility (state (update (Market_init 100 0.02) example_draws))
   \<and> (\<exists>m2. apply_targets (update (Market_init 100 0.02) example_draws) 100 0.01 = Inr m2
          \<and> 0.001 \<le> volatility (state m2))"
proof -
  have h: "(0::real) < 100" "(0::real) < 0.02" by simp_all
  have v: "0 < volatility (state (Market_init 100 0.02))"
    by (simp add: Market_init_def)
  note th = no_division_by_zero [OF h, where cm = ChallengeManager_init
      and mm = "make_market SimpleMarketMaker_default" and n = 1
      and rnd = "\<lambda>dy. example_draws" and m = "Market_init 100 0.02" and d = example_draws
      and new_price = 100 and new_volatility = "0.01"]
  have "run example_game (\<lambda>dy. example_draws) \<noteq> Inl ZeroDivisionError"
    using th by (simp add: example_game_def)
  moreover have "\<exists>score g'. run example_game (\<lambda>dy. example_draws) = Inr (score, g')"
    using th by (simp add: example_game_def)
  moreover have "0.01 \<le> price (state (update (Market_init 100 0.02) example_draws))"
    "0 < volatility (state (update (Market_init 100 0.02) example_draws))"
    "\<exists>m2. apply_targets (update (Market_init 100 0.02) example_draws) 100 0.01 = Inr m2
          \<and> 0.001 \<le> volatility (state m2)"
    using th v by blast+
  ultimately show ?thesis using h v by blast
qed

section \<open>Resolving the strategy by name\<close>

lemma get_market_maker_class_fallback:
  "map_of globals class_name = None \<Longrightarrow>
   get_market_maker_class class_name =
     (Class_SimpleMarketMaker,
      [''Error: MarketMaker class '' @ [CHR 0x27] @ class_name @ [CHR 0x27] @ '' not found.'',
       ''Using SimpleMarketMaker as fallback.''])"
  by (simp add: get_market_maker_class_def)

lemma get_market_maker_class_found:
  "map_of globals class_name = Some obj \<Longrightarrow> get_market_maker_class class_name = (obj, [])"
  by (simp add: get_market_maker_class_def)

lemma get_market_maker_class_default:
  "get_market_maker_class ''SimpleMarketMaker'' = (Class_SimpleMarketMaker, [])"
  by (simp add: get_market_maker_class_def globals_def)

lemma get_market_maker_class_unknown:
  "get_market_maker_class ''FancyMarketMaker'' =
     (Class_SimpleMarketMaker,
      [''Error: MarketMaker class '' @ [CHR 0x27] @ ''FancyMarketMaker'' @ [CHR 0x27] @ '' not found.'',
       ''Using SimpleMarketMaker as fallback.''])"
  by (simp add: get_market_maker_class_def globals_def)

text \<open>
  C9: the lookup falls back to \<open>SimpleMarketMaker\<close> only for a name that the module's
  namespace does not bind. A name the namespace binds to something that is not a strategy is
  returned as it is, with no warning: \<open>ABC\<close> resolves to the class \<open>ABC\<close> and
  \<open>MarketMaker\<close> to the abstract base class, neither of which can quote.
\<close>

theorem get_market_maker_class_non_strategy:
  "get_market_maker_class ''ABC'' = (Class_ABC, [])
   \<and> \<not> is_strategy_variant (fst (get_market_maker_class ''ABC''))
   \<and> get_market_maker_class ''MarketMaker'' = (Class_MarketMaker, [])
   \<and> \<not> is_strategy_variant (fst (get_market_maker_class ''MarketMaker''))"
  by (simp add: get_market_maker_class_def globals_def is_strategy_variant_def)

end
